theory Spec2Isabelle
  imports Complex_Main "HOL-Library.Word"
begin

section \<open>Python values\<close>

text \<open>
  A Python \<open>str\<close> is a sequence of Unicode code points; \<open>len\<close> counts code points. The
  literals of the source are ASCII and are written with \<open>str\<close>.
\<close>

type_synonym pystr = "nat list"

definition str :: "string \<Rightarrow> pystr" where
  "str s = map of_char s"

text \<open>
  A Python \<open>float\<close>: a finite double is the rational it denotes (both zeros are \<open>FNum 0\<close>),
  or one of the two infinities, or NaN. Only truthiness and the comparison with \<open>1.00\<close>
  are used by the source, and both are exact on doubles.
\<close>

datatype pyfloat = FNum rat | FPosInf | FNegInf | FNaN

text \<open>
  The values a \<open>Dict[str, Any]\<close> of this client holds: what JSON decodes to. A \<open>dict\<close> is
  an association list in insertion order; a lookup takes the first entry of a key.
\<close>

datatype pyval =
    PyNone
  | PyBool bool
  | PyInt int
  | PyFloat pyfloat
  | PyStr pystr
  | PyList "pyval list"
  | PyDict "(pystr \<times> pyval) list"

type_synonym pydict = "(pystr \<times> pyval) list"

text \<open>
  What \<open>requests\<close> returns: the status, the raw body, and what \<open>response.json()\<close> decodes
  (\<open>None\<close> when the body is not JSON).
\<close>

datatype response = Response (status_code: nat) (content: "8 word list") (json: "pyval option")

text \<open>
  The exceptions of the source. \<open>HTTPError\<close>, \<open>JSONDecodeError\<close> and \<open>TransportError\<close> (a
  connection failure or a timeout) are subclasses of \<open>requests.RequestException\<close>.
\<close>

datatype error =
    ValueError pystr
  | TypeError
  | AttributeError
  | KeyError
  | UnicodeEncodeError
  | JSONDecodeError
  | HTTPError response
  | TransportError pystr
  | RequestException string pyval

text \<open>\<open>bool(v)\<close>, as \<open>not v\<close> and \<open>if v\<close> use it.\<close>

fun truthy :: "pyval \<Rightarrow> bool" where
  "truthy PyNone = False"
| "truthy (PyBool b) = b"
| "truthy (PyInt n) = (n \<noteq> 0)"
| "truthy (PyFloat (FNum q)) = (q \<noteq> 0)"
| "truthy (PyFloat _) = True"
| "truthy (PyStr s) = (s \<noteq> [])"
| "truthy (PyList l) = (l \<noteq> [])"
| "truthy (PyDict d) = (d \<noteq> [])"

text \<open>\<open>d.get(k, default)\<close> on a dict.\<close>

definition dict_get :: "(pystr \<times> 'v) list \<Rightarrow> pystr \<Rightarrow> 'v \<Rightarrow> 'v" where
  "dict_get d k dflt = (case map_of d k of None \<Rightarrow> dflt | Some v \<Rightarrow> v)"

text \<open>
  \<open>v.get(k, default)\<close> on any value: only a dict has the method, every other value of
  \<open>pyval\<close> raises \<open>AttributeError\<close>.
\<close>

fun attr_get :: "pyval \<Rightarrow> pystr \<Rightarrow> pyval \<Rightarrow> error + pyval" where
  "attr_get (PyDict d) k dflt = Inr (dict_get d k dflt)"
| "attr_get _ k dflt = Inl AttributeError"

text \<open>\<open>len(v)\<close>: numbers, booleans and \<open>None\<close> have no length.\<close>

fun py_len :: "pyval \<Rightarrow> error + nat" where
  "py_len (PyStr s) = Inr (length s)"
| "py_len (PyList l) = Inr (length l)"
| "py_len (PyDict d) = Inr (length d)"
| "py_len _ = Inl TypeError"

text \<open>
  What the source takes from Python's libraries: the Unicode tables behind \<open>str.isalpha\<close>
  and \<open>str.lower\<close>, \<open>json.dumps\<close> (total on \<open>pyval\<close>), HMAC-SHA256 on bytes
  (\<open>hmac.new(key, msg, hashlib.sha256).digest()\<close>), and the outcome of
  \<open>requests.post(url, json, headers, timeout)\<close>.
\<close>

datatype http_result = NetworkFailure pystr | Reply response

record pylib =
  alphabetic :: "nat \<Rightarrow> bool"
  lower :: "pystr \<Rightarrow> pystr"
  json_dumps :: "pyval \<Rightarrow> pystr"
  hmac_sha256 :: "8 word list \<Rightarrow> 8 word list \<Rightarrow> 8 word list"
  requests_post :: "pystr \<Rightarrow> pydict \<Rightarrow> (string \<times> pystr) list \<Rightarrow> int \<Rightarrow> http_result"

text \<open>\<open>s.isalpha()\<close>: every code point alphabetic and at least one code point.\<close>

fun isalpha :: "pylib \<Rightarrow> pyval \<Rightarrow> error + bool" where
  "isalpha L (PyStr s) = Inr (s \<noteq> [] \<and> list_all (alphabetic L) s)"
| "isalpha L _ = Inl AttributeError"

text \<open>\<open>v.startswith(p)\<close> for a \<open>str\<close> prefix \<open>p\<close>.\<close>

fun startswith :: "pyval \<Rightarrow> pystr \<Rightarrow> error + bool" where
  "startswith (PyStr s) p = Inr (take (length p) s = p)"
| "startswith _ p = Inl AttributeError"

section \<open>Validation of payment data\<close>

text \<open>A name between single quotes, as the messages of the source show it.\<close>

definition quoted :: "string \<Rightarrow> string" where
  "quoted s = CHR 0x27 # s @ [CHR 0x27]"

text \<open>The loop over \<open>required_fields\<close>: the first absent or falsy field raises.\<close>

fun check_required :: "string list \<Rightarrow> pydict \<Rightarrow> error + unit" where
  "check_required [] payment_data = Inr ()"
| "check_required (field # rest) payment_data =
     (case map_of payment_data (str field) of
        None \<Rightarrow> Inl (ValueError (str (''Required field '' @ quoted field @ '' is missing or empty'')))
      | Some v \<Rightarrow>
          if \<not> truthy v
          then Inl (ValueError (str (''Required field '' @ quoted field @ '' is missing or empty'')))
          else check_required rest payment_data)"

text \<open>\<open>isinstance(amount, (int, float))\<close>; \<open>bool\<close> is a subclass of \<open>int\<close>.\<close>

fun is_number :: "pyval \<Rightarrow> bool" where
  "is_number (PyInt n) = True"
| "is_number (PyBool b) = True"
| "is_number (PyFloat f) = True"
| "is_number _ = False"

text \<open>\<open>amount < 1.00\<close> on a number; a comparison with NaN is false.\<close>

fun less_than_one :: "pyval \<Rightarrow> bool" where
  "less_than_one (PyInt n) = (n < 1)"
| "less_than_one (PyBool b) = (\<not> b)"
| "less_than_one (PyFloat (FNum q)) = (q < 1)"
| "less_than_one (PyFloat FNegInf) = True"
| "less_than_one _ = False"

definition check_amount :: "pyval \<Rightarrow> error + unit" where
  "check_amount amount =
     (if \<not> is_number amount \<or> less_than_one amount
      then Inl (ValueError (str ''Payment amount must be a number and at least 1.00''))
      else Inr ())"

text \<open>\<open>len(currency) != 3 or not currency.isalpha()\<close>, with the short circuit of \<open>or\<close>.\<close>

definition check_currency :: "pylib \<Rightarrow> pyval \<Rightarrow> error + unit" where
  "check_currency L currency =
     (case py_len currency of
        Inl e \<Rightarrow> Inl e
      | Inr n \<Rightarrow>
          if n \<noteq> 3
          then Inl (ValueError (str ''Currency code must be a 3-letter code (e.g., USD)''))
          else (case isalpha L currency of
                  Inl e \<Rightarrow> Inl e
                | Inr a \<Rightarrow>
                    if \<not> a
                    then Inl (ValueError (str ''Currency code must be a 3-letter code (e.g., USD)''))
                    else Inr ()))"

text \<open>The loop over \<open>url_fields\<close>: a field that is present and truthy must start with \<open>http\<close>.\<close>

fun check_urls :: "string list \<Rightarrow> pydict \<Rightarrow> error + unit" where
  "check_urls [] payment_data = Inr ()"
| "check_urls (field # rest) payment_data =
     (case map_of payment_data (str field) of
        None \<Rightarrow> check_urls rest payment_data
      | Some v \<Rightarrow>
          if truthy v
          then (case startswith v (str ''http'') of
                  Inl e \<Rightarrow> Inl e
                | Inr b \<Rightarrow>
                    if \<not> b then Inl (ValueError (str (field @ '' must be a valid URL'')))
                    else check_urls rest payment_data)
          else check_urls rest payment_data)"

definition required_fields :: "string list" where
  "required_fields = [''payment_amount'', ''currency_code'', ''ref_trx'']"

definition url_fields :: "string list" where
  "url_fields = [''success_redirect'', ''failure_url'', ''cancel_redirect'', ''ipn_url'']"

text \<open>
  \<open>_validate_payment_data\<close>. After the first loop the two subscripts cannot raise
  \<open>KeyError\<close>; the model keeps the branch.
\<close>

definition validate_payment_data :: "pylib \<Rightarrow> pydict \<Rightarrow> error + unit" where
  "validate_payment_data L payment_data =
     (case check_required required_fields payment_data of
        Inl e \<Rightarrow> Inl e
      | Inr _ \<Rightarrow>
          (case map_of payment_data (str ''payment_amount'') of
             None \<Rightarrow> Inl KeyError
           | Some amount \<Rightarrow>
               (case check_amount amount of
                  Inl e \<Rightarrow> Inl e
                | Inr _ \<Rightarrow>
                    (case map_of payment_data (str ''currency_code'') of
                       None \<Rightarrow> Inl KeyError
                     | Some currency \<Rightarrow>
                         (case check_currency L currency of
                            Inl e \<Rightarrow> Inl e
                          | Inr _ \<Rightarrow> check_urls url_fields payment_data)))))"

section \<open>Effects: the log, the calls, the requests\<close>

datatype level = INFO | WARNING | ERROR

text \<open>A value passed to the logger: a Python value, or \<open>str(e)\<close> of a caught exception.\<close>

datatype logval = V pyval | StrOf error

text \<open>
  What a run leaves behind: the log records (level, message, the values an f-string
  interpolates, the \<open>extra\<close> dict), the methods of the client it entered, and the requests
  it sent.
\<close>

datatype event =
    Log level string "logval list" "(string \<times> logval) list"
  | Call string
  | HttpPost pystr pydict "(string \<times> pystr) list" int

text \<open>A computation: its result or the exception it raised, and the events up to there.\<close>

type_synonym 'a py = "(error + 'a) \<times> event list"

definition py_return :: "'a \<Rightarrow> 'a py" where
  "py_return x = (Inr x, [])"

definition py_raise :: "error \<Rightarrow> 'a py" where
  "py_raise e = (Inl e, [])"

definition emit :: "event \<Rightarrow> unit py" where
  "emit ev = (Inr (), [ev])"

definition lift :: "error + 'a \<Rightarrow> 'a py" where
  "lift r = (r, [])"

definition py_bind :: "'a py \<Rightarrow> ('a \<Rightarrow> 'b py) \<Rightarrow> 'b py" where
  "py_bind m f =
     (case m of
        (Inl e, t) \<Rightarrow> (Inl e, t)
      | (Inr x, t) \<Rightarrow> (case f x of (r, t') \<Rightarrow> (r, t @ t')))"

text \<open>\<open>try: m except Exception as e: h(e)\<close>.\<close>

definition try_except :: "'a py \<Rightarrow> (error \<Rightarrow> 'a py) \<Rightarrow> 'a py" where
  "try_except m h =
     (case m of
        (Inl e, t) \<Rightarrow> (case h e of (r, t') \<Rightarrow> (r, t @ t'))
      | (Inr x, t) \<Rightarrow> (Inr x, t))"

text \<open>
  \<open>logging.Logger.makeRecord\<close> raises \<open>KeyError\<close> when a key of \<open>extra\<close> is \<open>message\<close>,
  \<open>asctime\<close> or an attribute of the record. The module configures the level \<open>INFO\<close>, so
  every call of the source makes a record.
\<close>

definition record_attributes :: "string list" where
  "record_attributes =
     [''message'', ''asctime'', ''name'', ''msg'', ''args'', ''levelname'', ''levelno'',
      ''pathname'', ''filename'', ''module'', ''exc_info'', ''exc_text'', ''stack_info'',
      ''lineno'', ''funcName'', ''created'', ''msecs'', ''relativeCreated'', ''thread'',
      ''threadName'', ''processName'', ''process'', ''taskName'']"

definition logger :: "level \<Rightarrow> string \<Rightarrow> logval list \<Rightarrow> (string \<times> logval) list \<Rightarrow> unit py" where
  "logger lvl msg args extra =
     (if list_ex (\<lambda>k. k \<in> set record_attributes) (map fst extra)
      then py_raise KeyError
      else emit (Log lvl msg args extra))"

text \<open>The names of the methods a trace entered, in order.\<close>

fun calls :: "event list \<Rightarrow> string list" where
  "calls [] = []"
| "calls (Call f # t) = f # calls t"
| "calls (_ # t) = calls t"

text \<open>The requests a trace sent.\<close>

fun requests_sent :: "event list \<Rightarrow> event list" where
  "requests_sent [] = []"
| "requests_sent (HttpPost u b h n # t) = HttpPost u b h n # requests_sent t"
| "requests_sent (_ # t) = requests_sent t"

section \<open>Bytes and digests\<close>

text \<open>
  \<open>s.encode('utf-8')\<close>: a surrogate code point cannot be encoded. A \<open>str\<close> holds no code
  point above \<open>0x10FFFF\<close>; the encoder of the model fails there as well.
\<close>

definition utf8_char :: "nat \<Rightarrow> error + 8 word list" where
  "utf8_char c =
     (if c < 0x80 then Inr [of_nat c]
      else if c < 0x800 then Inr [of_nat (0xC0 + c div 64), of_nat (0x80 + c mod 64)]
      else if 0xD800 \<le> c \<and> c \<le> 0xDFFF then Inl UnicodeEncodeError
      else if c < 0x10000
        then Inr [of_nat (0xE0 + c div 4096), of_nat (0x80 + c div 64 mod 64),
                  of_nat (0x80 + c mod 64)]
      else if c < 0x110000
        then Inr [of_nat (0xF0 + c div 262144), of_nat (0x80 + c div 4096 mod 64),
                  of_nat (0x80 + c div 64 mod 64), of_nat (0x80 + c mod 64)]
      else Inl UnicodeEncodeError)"

fun encode_utf8 :: "pystr \<Rightarrow> error + 8 word list" where
  "encode_utf8 [] = Inr []"
| "encode_utf8 (c # cs) =
     (case utf8_char c of
        Inl e \<Rightarrow> Inl e
      | Inr bs \<Rightarrow> (case encode_utf8 cs of Inl e \<Rightarrow> Inl e | Inr r \<Rightarrow> Inr (bs @ r)))"

text \<open>\<open>hexdigest()\<close>: two lower-case hexadecimal digits for each byte.\<close>

definition hex_digit :: "nat \<Rightarrow> nat" where
  "hex_digit n = (if n < 10 then 48 + n else 87 + n)"

fun hexdigest :: "8 word list \<Rightarrow> pystr" where
  "hexdigest [] = []"
| "hexdigest (b # bs) = hex_digit (unat b div 16) # hex_digit (unat b mod 16) # hexdigest bs"

text \<open>
  \<open>hmac.compare_digest(a, b)\<close> on two \<open>str\<close>: \<open>TypeError\<close> unless both are ASCII, their
  equality otherwise.
\<close>

definition is_ascii :: "pystr \<Rightarrow> bool" where
  "is_ascii s = list_all (\<lambda>c. c < 128) s"

definition compare_digest :: "pystr \<Rightarrow> pystr \<Rightarrow> error + bool" where
  "compare_digest a b = (if is_ascii a \<and> is_ascii b then Inr (a = b) else Inl TypeError)"

section \<open>The client\<close>

record client =
  base_url :: pystr
  merchant_key :: pystr
  api_key :: pystr
  environment :: pystr
  webhook_secret :: "pystr option"
  timeout :: int

text \<open>\<open>not webhook_secret\<close> on an \<open>Optional[str]\<close>: \<open>None\<close> or the empty string.\<close>

fun no_secret :: "pystr option \<Rightarrow> bool" where
  "no_secret None = True"
| "no_secret (Some s) = (s = [])"

text \<open>
  \<open>__init__\<close>. The defaults of the source (\<open>environment='sandbox'\<close>, \<open>webhook_secret=None\<close>,
  \<open>timeout=30\<close>) are arguments the caller of the model writes out.
\<close>

definition init :: "pylib \<Rightarrow> pystr \<Rightarrow> pystr \<Rightarrow> pystr \<Rightarrow> pystr option \<Rightarrow> int \<Rightarrow> client py" where
  "init L mk ak env secret tmo =
     (let self = \<lparr> base_url = str ''https://heleerra.com'', merchant_key = mk, api_key = ak,
                   environment = lower L env, webhook_secret = secret, timeout = tmo \<rparr>;
          self = (if no_secret secret
                  then self \<lparr> webhook_secret :=
                         Some (if environment self = str ''sandbox''
                               then str ''test_webhook_secret'' else str ''webhook_secret'') \<rparr>
                  else self)
      in if environment self \<noteq> str ''sandbox'' \<and> environment self \<noteq> str ''production''
         then py_raise (ValueError (str (''Environment must be either '' @ quoted ''sandbox'' @ '' or ''
                          @ quoted ''production'')))
         else py_bind (logger INFO ''Heleerra API client initialized for {} environment''
                         [V (PyStr (environment self))] [])
                (\<lambda>_. py_return self))"

section \<open>Webhook signature\<close>

text \<open>The body of the \<open>try\<close> of \<open>verify_webhook_signature\<close>.\<close>

definition verify_digest :: "pylib \<Rightarrow> pystr \<Rightarrow> pystr \<Rightarrow> pystr \<Rightarrow> bool py" where
  "verify_digest L secret payload signature =
     py_bind (lift (encode_utf8 secret)) (\<lambda>key.
     py_bind (lift (encode_utf8 payload)) (\<lambda>msg.
     let expected_signature = hexdigest (hmac_sha256 L key msg) in
     py_bind (lift (compare_digest expected_signature signature)) (\<lambda>is_valid.
     py_bind (if \<not> is_valid
              then logger WARNING ''Webhook signature verification failed'' [] []
              else py_return ()) (\<lambda>_.
     py_return is_valid))))"

definition verify_webhook_signature :: "pylib \<Rightarrow> client \<Rightarrow> pystr \<Rightarrow> pystr \<Rightarrow> bool py" where
  "verify_webhook_signature L self payload signature =
     (case webhook_secret self of
        None \<Rightarrow>
          py_bind (logger WARNING ''Webhook secret not configured'' [] []) (\<lambda>_. py_return False)
      | Some secret \<Rightarrow>
          if secret = []
          then py_bind (logger WARNING ''Webhook secret not configured'' [] [])
                 (\<lambda>_. py_return False)
          else try_except (verify_digest L secret payload signature)
                 (\<lambda>e. py_bind (logger ERROR ''Error verifying webhook signature'' []
                                  [(''error'', StrOf e)])
                        (\<lambda>_. py_return False)))"

section \<open>Webhook dispatch\<close>

text \<open>\<open>payload.get('data', {}).get(key, default)\<close>.\<close>

definition data_get :: "pydict \<Rightarrow> string \<Rightarrow> pyval \<Rightarrow> pyval py" where
  "data_get payload key dflt =
     lift (attr_get (dict_get payload (str ''data'') (PyDict [])) (str key) dflt)"

definition process_completed_payment :: "pydict \<Rightarrow> unit py" where
  "process_completed_payment payload =
     py_bind (emit (Call ''_process_completed_payment'')) (\<lambda>_.
     py_bind (data_get payload ''ref_trx'' PyNone) (\<lambda>transaction_id.
     py_bind (data_get payload ''amount'' PyNone) (\<lambda>amount.
     py_bind (data_get payload ''customer_email'' PyNone) (\<lambda>customer_email.
     logger INFO ''Payment completed successfully'' []
       [(''transaction_id'', V transaction_id), (''amount'', V amount),
        (''customer_email'', V customer_email)]))))"

definition process_failed_payment :: "pydict \<Rightarrow> unit py" where
  "process_failed_payment payload =
     py_bind (emit (Call ''_process_failed_payment'')) (\<lambda>_.
     py_bind (data_get payload ''ref_trx'' PyNone) (\<lambda>transaction_id.
     logger WARNING ''Payment failed'' []
       [(''transaction_id'', V transaction_id),
        (''reason'', V (dict_get payload (str ''message'') (PyStr (str ''Unknown reason''))))]))"

definition process_cancelled_payment :: "pydict \<Rightarrow> unit py" where
  "process_cancelled_payment payload =
     py_bind (emit (Call ''_process_cancelled_payment'')) (\<lambda>_.
     py_bind (data_get payload ''ref_trx'' PyNone) (\<lambda>transaction_id.
     logger INFO ''Payment cancelled by user'' [] [(''transaction_id'', V transaction_id)]))"

definition process_expired_payment :: "pydict \<Rightarrow> unit py" where
  "process_expired_payment payload =
     py_bind (emit (Call ''_process_expired_payment'')) (\<lambda>_.
     py_bind (data_get payload ''ref_trx'' PyNone) (\<lambda>transaction_id.
     logger INFO ''Payment session expired'' [] [(''transaction_id'', V transaction_id)]))"

definition sandbox_result :: pyval where
  "sandbox_result =
     PyDict [(str ''status'', PyStr (str ''sandbox_processed'')),
             (str ''message'', PyStr (str ''Webhook processed in sandbox mode''))]"

definition processed_result :: pyval where
  "processed_result =
     PyDict [(str ''status'', PyStr (str ''processed'')),
             (str ''message'', PyStr (str ''Webhook processed successfully''))]"

definition error_result :: pyval where
  "error_result =
     PyDict [(str ''status'', PyStr (str ''error'')),
             (str ''message'', PyStr (str ''Invalid signature''))]"

definition handle_sandbox_webhook :: "pydict \<Rightarrow> pyval py" where
  "handle_sandbox_webhook payload =
     py_bind (emit (Call ''_handle_sandbox_webhook'')) (\<lambda>_.
     py_bind (data_get payload ''ref_trx'' PyNone) (\<lambda>transaction_id.
     let status = dict_get payload (str ''status'') PyNone in
     py_bind (data_get payload ''amount'' PyNone) (\<lambda>amount.
     py_bind (logger INFO ''Processing sandbox webhook'' []
                [(''transaction_id'', V transaction_id), (''status'', V status),
                 (''amount'', V amount)]) (\<lambda>_.
     py_return sandbox_result))))"

definition handle_production_webhook :: "pydict \<Rightarrow> pyval py" where
  "handle_production_webhook payload =
     py_bind (emit (Call ''_handle_production_webhook'')) (\<lambda>_.
     let status = dict_get payload (str ''status'') (PyStr (str ''unknown'')) in
     py_bind (data_get payload ''ref_trx'' PyNone) (\<lambda>transaction_id.
     py_bind (data_get payload ''amount'' (PyInt 0)) (\<lambda>amount.
     py_bind (logger INFO ''Processing production webhook'' []
                [(''transaction_id'', V transaction_id), (''status'', V status),
                 (''amount'', V amount)]) (\<lambda>_.
     py_bind (if status = PyStr (str ''completed'') then process_completed_payment payload
              else if status = PyStr (str ''failed'') then process_failed_payment payload
              else if status = PyStr (str ''cancelled'') then process_cancelled_payment payload
              else if status = PyStr (str ''expired'') then process_expired_payment payload
              else logger WARNING ''Unknown payment status in webhook'' []
                     [(''status'', V status), (''transaction_id'', V transaction_id)]) (\<lambda>_.
     py_return processed_result)))))"

definition handle_webhook :: "pylib \<Rightarrow> client \<Rightarrow> pydict \<Rightarrow> (pystr \<times> pystr) list \<Rightarrow> pyval py" where
  "handle_webhook L self payload headers =
     (let signature = dict_get headers (str ''x-signature'') [];
          env = dict_get headers (str ''x-environment'') (str ''production'');
          webhook_id = dict_get headers (str ''x-webhook-id'') []
      in py_bind (verify_webhook_signature L self (json_dumps L (PyDict payload)) signature)
           (\<lambda>ok.
              if \<not> ok
              then py_bind (logger WARNING ''Webhook signature verification failed'' []
                              [(''webhook_id'', V (PyStr webhook_id)),
                               (''environment'', V (PyStr env))])
                     (\<lambda>_. py_return error_result)
              else if env = str ''sandbox''
              then handle_sandbox_webhook payload
              else handle_production_webhook payload))"

section \<open>Payment initiation\<close>

definition raise_for_status :: "response \<Rightarrow> error + unit" where
  "raise_for_status r =
     (if 400 \<le> status_code r \<and> status_code r < 600 then Inl (HTTPError r) else Inr ())"

definition response_json :: "response \<Rightarrow> error + pyval" where
  "response_json r = (case json r of None \<Rightarrow> Inl JSONDecodeError | Some v \<Rightarrow> Inr v)"

fun is_request_exception :: "error \<Rightarrow> bool" where
  "is_request_exception (HTTPError r) = True"
| "is_request_exception JSONDecodeError = True"
| "is_request_exception (TransportError m) = True"
| "is_request_exception (RequestException m v) = True"
| "is_request_exception _ = False"

text \<open>
  \<open>try: m except requests.HTTPError: h1 except requests.RequestException as e: h2(e)\<close>.
  The first clause reads the local \<open>response\<close>, which is the response of the error. An
  exception raised inside a handler is not caught by the other clause.
\<close>

definition try_requests ::
  "'a py \<Rightarrow> (response \<Rightarrow> 'a py) \<Rightarrow> (error \<Rightarrow> 'a py) \<Rightarrow> 'a py" where
  "try_requests m h1 h2 =
     (case m of
        (Inr x, t) \<Rightarrow> (Inr x, t)
      | (Inl (HTTPError r), t) \<Rightarrow> (case h1 r of (res, t') \<Rightarrow> (res, t @ t'))
      | (Inl e, t) \<Rightarrow>
          if is_request_exception e then (case h2 e of (res, t') \<Rightarrow> (res, t @ t'))
          else (Inl e, t))"

definition post :: "pylib \<Rightarrow> pystr \<Rightarrow> pydict \<Rightarrow> (string \<times> pystr) list \<Rightarrow> int \<Rightarrow> response py" where
  "post L url body headers tmo =
     py_bind (emit (HttpPost url body headers tmo)) (\<lambda>_.
       case requests_post L url body headers tmo of
         NetworkFailure m \<Rightarrow> py_raise (TransportError m)
       | Reply r \<Rightarrow> py_return r)"

definition initiate_payment :: "pylib \<Rightarrow> client \<Rightarrow> pydict \<Rightarrow> pyval py" where
  "initiate_payment L self payment_data =
     py_bind (lift (validate_payment_data L payment_data)) (\<lambda>_.
     let headers = [(''Content-Type'', str ''application/json''),
                    (''X-Environment'', environment self),
                    (''X-Merchant-Key'', merchant_key self),
                    (''X-API-Key'', api_key self)]
     in try_requests
          (py_bind (logger INFO ''Initiating payment for ref_trx: {}''
                      [V (dict_get payment_data (str ''ref_trx'') (PyStr (str ''unknown'')))] [])
             (\<lambda>_.
           py_bind (post L (base_url self @ str ''/api/v1/initiate-payment'') payment_data
                      headers (timeout self)) (\<lambda>response.
           py_bind (lift (raise_for_status response)) (\<lambda>_.
           py_bind (lift (response_json response)) (\<lambda>result.
           py_bind (logger INFO ''Payment initiated successfully'' []
                      [(''ref_trx'', V (dict_get payment_data (str ''ref_trx'') PyNone)),
                       (''amount'', V (dict_get payment_data (str ''payment_amount'') PyNone)),
                       (''environment'', V (PyStr (environment self)))]) (\<lambda>_.
           py_return result))))))
          (\<lambda>response.
           py_bind (if content response \<noteq> [] then lift (response_json response)
                    else py_return (PyDict [])) (\<lambda>error_data.
           py_bind (lift (attr_get error_data (str ''message'')
                            (PyStr (str ''Payment initiation failed'')))) (\<lambda>error_message.
           py_bind (lift (attr_get error_data (str ''error_code'')
                            (PyStr (str ''UNKNOWN_ERROR'')))) (\<lambda>error_code.
           py_bind (logger ERROR ''Payment initiation failed'' []
                      [(''status_code'', V (PyInt (int (status_code response)))),
                       (''error_code'', V error_code),
                       (''message'', V error_message),
                       (''ref_trx'', V (dict_get payment_data (str ''ref_trx'') PyNone))]) (\<lambda>_.
           py_raise (RequestException ''Payment initiation failed: {}'' error_message))))))
          (\<lambda>e.
           py_bind (logger ERROR ''Network error during payment initiation'' []
                      [(''error'', StrOf e),
                       (''ref_trx'', V (dict_get payment_data (str ''ref_trx'') PyNone))]) (\<lambda>_.
           py_raise e)))"

section \<open>Predicates of the statements\<close>

text \<open>A required field is absent from the mapping, or its value is falsy.\<close>

definition missing_or_empty :: "pydict \<Rightarrow> string \<Rightarrow> bool" where
  "missing_or_empty payment_data field =
     (case map_of payment_data (str field) of None \<Rightarrow> True | Some v \<Rightarrow> \<not> truthy v)"

text \<open>\<open>amount >= 1.00\<close> on a number; NaN is neither below nor at least \<open>1.00\<close>.\<close>

fun at_least_one :: "pyval \<Rightarrow> bool" where
  "at_least_one (PyInt n) = (1 \<le> n)"
| "at_least_one (PyBool b) = b"
| "at_least_one (PyFloat (FNum q)) = (1 \<le> q)"
| "at_least_one (PyFloat FPosInf) = True"
| "at_least_one _ = False"

text \<open>A URL field is absent, falsy, or a \<open>str\<close> that starts with \<open>http\<close>.\<close>

definition url_ok :: "pydict \<Rightarrow> string \<Rightarrow> bool" where
  "url_ok payment_data field =
     (case map_of payment_data (str field) of
        None \<Rightarrow> True
      | Some v \<Rightarrow> \<not> truthy v \<or> startswith v (str ''http'') = Inr True)"

text \<open>The \<open>data\<close> entry of a payload is absent or a dict.\<close>

fun is_dict :: "pyval \<Rightarrow> bool" where
  "is_dict (PyDict d) = True"
| "is_dict _ = False"

definition data_block_ok :: "pydict \<Rightarrow> bool" where
  "data_block_ok payload = is_dict (dict_get payload (str ''data'') (PyDict []))"

text \<open>The four status handlers, and the calls of a trace that enter one of them.\<close>

definition status_handlers :: "string list" where
  "status_handlers =
     [''_process_completed_payment'', ''_process_failed_payment'',
      ''_process_cancelled_payment'', ''_process_expired_payment'']"

definition status_calls :: "event list \<Rightarrow> string list" where
  "status_calls t = filter (\<lambda>f. f \<in> set status_handlers) (calls t)"

definition recognized :: "pyval \<Rightarrow> bool" where
  "recognized status \<longleftrightarrow>
     status = PyStr (str ''completed'') \<or> status = PyStr (str ''failed'') \<or>
     status = PyStr (str ''cancelled'') \<or> status = PyStr (str ''expired'')"

text \<open>The status handler a status value selects, none for an unrecognized one.\<close>

definition selected :: "pyval \<Rightarrow> string list" where
  "selected status =
     (if status = PyStr (str ''completed'') then [''_process_completed_payment'']
      else if status = PyStr (str ''failed'') then [''_process_failed_payment'']
      else if status = PyStr (str ''cancelled'') then [''_process_cancelled_payment'']
      else if status = PyStr (str ''expired'') then [''_process_expired_payment'']
      else [])"



text \<open>
  The signature the gateway attaches to a payload: the hexadecimal HMAC-SHA256 of its
  bytes under the shared secret.
\<close>

definition sign :: "pylib \<Rightarrow> pystr \<Rightarrow> pystr \<Rightarrow> pystr" where
  "sign L secret payload =
     (case encode_utf8 secret of
        Inl e \<Rightarrow> []
      | Inr key \<Rightarrow>
          (case encode_utf8 payload of
             Inl e \<Rightarrow> []
           | Inr msg \<Rightarrow> hexdigest (hmac_sha256 L key msg)))"

section \<open>A library instance for closed examples\<close>

text \<open>
  The statements below hold for every \<open>pylib\<close>. A closed example needs one: \<open>ascii_lib\<close>
  has the ASCII letters and the ASCII lower-casing of Python, and placeholders where
  Python serialises, digests and talks to the network. The examples sign with \<open>sign\<close>, so
  a signature is valid for the placeholder digest as it would be for HMAC-SHA256.
\<close>

definition ascii_lib :: pylib where
  "ascii_lib =
     \<lparr> alphabetic = (\<lambda>c. (65 \<le> c \<and> c \<le> 90) \<or> (97 \<le> c \<and> c \<le> 122)),
       lower = map (\<lambda>c. if 65 \<le> c \<and> c \<le> 90 then c + 32 else c),
       json_dumps = (\<lambda>v. str ''{}''),
       hmac_sha256 = (\<lambda>key msg. key @ msg),
       requests_post = (\<lambda>url body headers tmo. NetworkFailure []) \<rparr>"

text \<open>The client \<open>HeleerraAPI('merchant', 'key')\<close> constructs.\<close>

definition demo_client :: client where
  "demo_client =
     \<lparr> base_url = str ''https://heleerra.com'', merchant_key = str ''merchant'',
       api_key = str ''key'', environment = str ''sandbox'',
       webhook_secret = Some (str ''test_webhook_secret''), timeout = 30 \<rparr>"

definition demo_signature :: pystr where
  "demo_signature = sign ascii_lib (str ''test_webhook_secret'') (str ''{}'')"

section \<open>Facts\<close>

subsection \<open>Strings, computations and the logger\<close>

lemma str_eq_iff [simp]: "str a = str b \<longleftrightarrow> a = b"
  unfolding str_def by (rule inj_map_eq_map) (simp add: inj_on_def)

lemma str_Nil_iff [simp]: "str s = [] \<longleftrightarrow> s = []"
  by (simp add: str_def)

lemma length_str [simp]: "length (str s) = length s"
  by (simp add: str_def)

lemma py_bind_Inr [simp]: "py_bind (Inr x, t) f = (fst (f x), t @ snd (f x))"
  by (simp add: py_bind_def split: prod.splits)

lemma py_bind_Inl [simp]: "py_bind (Inl e, t) f = (Inl e, t)"
  by (simp add: py_bind_def)

lemma py_bind_return [simp]: "py_bind (py_return x) f = f x"
  by (simp add: py_return_def)

lemma py_bind_raise [simp]: "py_bind (py_raise e) f = (Inl e, [])"
  by (simp add: py_raise_def)

lemma py_bind_lift_Inr [simp]: "py_bind (lift (Inr x)) f = f x"
  by (simp add: lift_def)

lemma py_bind_lift_Inl [simp]: "py_bind (lift (Inl e)) f = (Inl e, [])"
  by (simp add: lift_def)

lemma py_bind_emit [simp]: "py_bind (emit ev) f = (fst (f ()), ev # snd (f ()))"
  by (simp add: emit_def)

lemma logger_plain [simp]: "logger lvl msg args [] = (Inr (), [Log lvl msg args []])"
  by (simp add: logger_def emit_def)

lemma logger_ok:
  "\<forall>k \<in> fst ` set extra. k \<notin> set record_attributes \<Longrightarrow>
   logger lvl msg args extra = (Inr (), [Log lvl msg args extra])"
  by (auto simp: logger_def emit_def list_ex_iff)

lemma calls_append [simp]: "calls (t @ u) = calls t @ calls u"
  by (induction t rule: calls.induct) auto

subsection \<open>Digests and the signature check\<close>

lemma hex_digit_ascii:
  "n < 256 \<Longrightarrow> hex_digit (n div 16) < 128"
  "n < 256 \<Longrightarrow> hex_digit (n mod 16) < 128"
  by (auto simp: hex_digit_def)

lemma unat_byte: "unat (b :: 8 word) < 256"
  using unsigned_less [of b] by simp

lemma is_ascii_hexdigest [simp]: "is_ascii (hexdigest bs)"
  by (induction bs) (simp_all add: is_ascii_def hex_digit_ascii unat_byte)

lemma compare_digest_hexdigest:
  "compare_digest (hexdigest d) s = (if is_ascii s then Inr (hexdigest d = s) else Inl TypeError)"
  by (simp add: compare_digest_def)

lemma verify_digest_eq:
  "verify_digest L k p s =
     (case encode_utf8 k of
        Inl e \<Rightarrow> (Inl e, [])
      | Inr key \<Rightarrow>
          (case encode_utf8 p of
             Inl e \<Rightarrow> (Inl e, [])
           | Inr msg \<Rightarrow>
               if \<not> is_ascii s then (Inl TypeError, [])
               else if hexdigest (hmac_sha256 L key msg) = s then (Inr True, [])
               else (Inr False, [Log WARNING ''Webhook signature verification failed'' [] []])))"
  by (simp add: verify_digest_def compare_digest_hexdigest Let_def py_return_def
           split: sum.splits)

lemma verify_digest_true_iff:
  "fst (verify_digest L k p s) = Inr True \<longleftrightarrow>
     (\<exists>key msg. encode_utf8 k = Inr key \<and> encode_utf8 p = Inr msg \<and>
                s = hexdigest (hmac_sha256 L key msg))"
  by (auto simp: verify_digest_eq split: sum.splits)

lemma try_except_pair:
  "try_except (r, t) h =
     (case r of Inl e \<Rightarrow> (fst (h e), t @ snd (h e)) | Inr x \<Rightarrow> (Inr x, t))"
  by (simp add: try_except_def split: sum.splits prod.splits)

lemma logger_error_extra [simp]:
  "logger ERROR ''Error verifying webhook signature'' [] [(''error'', StrOf e)] =
     (Inr (), [Log ERROR ''Error verifying webhook signature'' [] [(''error'', StrOf e)]])"
  by (rule logger_ok) (simp add: record_attributes_def)

lemma verify_eq:
  "verify_webhook_signature L self p s =
     (if no_secret (webhook_secret self)
      then (Inr False, [Log WARNING ''Webhook secret not configured'' [] []])
      else (case verify_digest L (the (webhook_secret self)) p s of
              (Inl e, t) \<Rightarrow>
                (Inr False, t @ [Log ERROR ''Error verifying webhook signature'' []
                                   [(''error'', StrOf e)]])
            | (Inr b, t) \<Rightarrow> (Inr b, t)))"
  by (cases "verify_digest L (the (webhook_secret self)) p s")
     (auto simp: verify_webhook_signature_def py_return_def try_except_pair
           split: option.splits sum.splits)

lemma verify_shape:
  "\<exists>b t. verify_webhook_signature L self p s = (Inr b, t) \<and> calls t = [] \<and> (b \<longrightarrow> t = [])"
  by (auto simp: verify_eq verify_digest_eq split: sum.splits)

lemma verify_true_iff:
  "fst (verify_webhook_signature L self p s) = Inr True \<longleftrightarrow>
     (\<exists>k key msg. webhook_secret self = Some k \<and> k \<noteq> [] \<and> encode_utf8 k = Inr key \<and>
        encode_utf8 p = Inr msg \<and> s = hexdigest (hmac_sha256 L key msg))"
  by (cases "webhook_secret self")
     (auto simp: verify_eq verify_digest_eq split: sum.splits)

subsection \<open>The handlers\<close>

lemmas logger_simps = logger_def record_attributes_def emit_def

lemma data_get_ok:
  "data_block_ok payload \<Longrightarrow> \<exists>v. data_get payload key dflt = (Inr v, [])"
  by (cases "dict_get payload (str ''data'') (PyDict [])")
     (simp_all add: data_block_ok_def data_get_def lift_def)

lemma data_get_bad:
  "\<not> data_block_ok payload \<Longrightarrow> data_get payload key dflt = (Inl AttributeError, [])"
  by (cases "dict_get payload (str ''data'') (PyDict [])")
     (simp_all add: data_block_ok_def data_get_def lift_def)

lemma sandbox_bad:
  "\<not> data_block_ok payload \<Longrightarrow>
   handle_sandbox_webhook payload = (Inl AttributeError, [Call ''_handle_sandbox_webhook''])"
  by (simp add: handle_sandbox_webhook_def data_get_bad)

lemma sandbox_ok:
  assumes "data_block_ok payload"
  shows "\<exists>l. handle_sandbox_webhook payload =
           (Inr sandbox_result, [Call ''_handle_sandbox_webhook'', l]) \<and> calls [l] = []"
proof -
  obtain v1 where v1: "data_get payload ''ref_trx'' PyNone = (Inr v1, [])"
    using data_get_ok [OF assms] by blast
  obtain v2 where v2: "data_get payload ''amount'' PyNone = (Inr v2, [])"
    using data_get_ok [OF assms] by blast
  show ?thesis
    by (simp add: handle_sandbox_webhook_def v1 v2 logger_simps py_return_def)
qed

lemma sandbox_calls:
  "calls (snd (handle_sandbox_webhook payload)) = [''_handle_sandbox_webhook'']"
proof (cases "data_block_ok payload")
  case True
  from sandbox_ok [OF True] show ?thesis by auto
next
  case False
  then show ?thesis by (simp add: sandbox_bad)
qed

lemma process_ok:
  assumes "data_block_ok payload"
  shows "\<exists>l. process_completed_payment payload =
           (Inr (), [Call ''_process_completed_payment'', l]) \<and> calls [l] = []"
    and "\<exists>l. process_failed_payment payload =
           (Inr (), [Call ''_process_failed_payment'', l]) \<and> calls [l] = []"
    and "\<exists>l. process_cancelled_payment payload =
           (Inr (), [Call ''_process_cancelled_payment'', l]) \<and> calls [l] = []"
    and "\<exists>l. process_expired_payment payload =
           (Inr (), [Call ''_process_expired_payment'', l]) \<and> calls [l] = []"
proof -
  obtain v1 where v1: "data_get payload ''ref_trx'' PyNone = (Inr v1, [])"
    using data_get_ok [OF assms] by blast
  obtain v2 where v2: "data_get payload ''amount'' PyNone = (Inr v2, [])"
    using data_get_ok [OF assms] by blast
  obtain v3 where v3: "data_get payload ''customer_email'' PyNone = (Inr v3, [])"
    using data_get_ok [OF assms] by blast
  show "\<exists>l. process_completed_payment payload =
           (Inr (), [Call ''_process_completed_payment'', l]) \<and> calls [l] = []"
    by (simp add: process_completed_payment_def v1 v2 v3 logger_simps)
  show "\<exists>l. process_failed_payment payload =
           (Inr (), [Call ''_process_failed_payment'', l]) \<and> calls [l] = []"
    by (simp add: process_failed_payment_def v1 logger_simps)
  show "\<exists>l. process_cancelled_payment payload =
           (Inr (), [Call ''_process_cancelled_payment'', l]) \<and> calls [l] = []"
    by (simp add: process_cancelled_payment_def v1 logger_simps)
  show "\<exists>l. process_expired_payment payload =
           (Inr (), [Call ''_process_expired_payment'', l]) \<and> calls [l] = []"
    by (simp add: process_expired_payment_def v1 logger_simps)
qed

lemma production_bad:
  "\<not> data_block_ok payload \<Longrightarrow>
   handle_production_webhook payload =
     (Inl AttributeError, [Call ''_handle_production_webhook''])"
  by (simp add: handle_production_webhook_def data_get_bad)

lemma production_ok:
  assumes ok: "data_block_ok payload"
  shows "fst (handle_production_webhook payload) = Inr processed_result"
    and "calls (snd (handle_production_webhook payload)) =
           ''_handle_production_webhook'' #
           selected (dict_get payload (str ''status'') (PyStr (str ''unknown'')))"
proof -
  obtain v1 where v1: "data_get payload ''ref_trx'' PyNone = (Inr v1, [])"
    using data_get_ok [OF ok] by blast
  obtain v2 where v2: "data_get payload ''amount'' (PyInt 0) = (Inr v2, [])"
    using data_get_ok [OF ok] by blast
  from process_ok [OF ok] obtain l1 l2 l3 l4 where p:
    "process_completed_payment payload = (Inr (), [Call ''_process_completed_payment'', l1])"
    "calls [l1] = []"
    "process_failed_payment payload = (Inr (), [Call ''_process_failed_payment'', l2])"
    "calls [l2] = []"
    "process_cancelled_payment payload = (Inr (), [Call ''_process_cancelled_payment'', l3])"
    "calls [l3] = []"
    "process_expired_payment payload = (Inr (), [Call ''_process_expired_payment'', l4])"
    "calls [l4] = []"
    by blast
  show "fst (handle_production_webhook payload) = Inr processed_result"
    by (simp add: handle_production_webhook_def v1 v2 p logger_simps py_return_def Let_def)
  show "calls (snd (handle_production_webhook payload)) =
           ''_handle_production_webhook'' #
           selected (dict_get payload (str ''status'') (PyStr (str ''unknown'')))"
    by (simp add: handle_production_webhook_def v1 v2 p logger_simps py_return_def Let_def
          selected_def)
qed

lemma production_unknown_log:
  assumes ok: "data_block_ok payload"
      and un: "selected (dict_get payload (str ''status'') (PyStr (str ''unknown''))) = []"
  shows "\<exists>v. Log WARNING ''Unknown payment status in webhook'' []
               [(''status'', V (dict_get payload (str ''status'') (PyStr (str ''unknown'')))),
                (''transaction_id'', V v)] \<in> set (snd (handle_production_webhook payload))"
proof -
  obtain v1 where v1: "data_get payload ''ref_trx'' PyNone = (Inr v1, [])"
    using data_get_ok [OF ok] by blast
  obtain v2 where v2: "data_get payload ''amount'' (PyInt 0) = (Inr v2, [])"
    using data_get_ok [OF ok] by blast
  from un have "\<not> recognized (dict_get payload (str ''status'') (PyStr (str ''unknown'')))"
    by (auto simp: selected_def recognized_def split: if_splits)
  then show ?thesis
    by (simp add: handle_production_webhook_def v1 v2 logger_simps py_return_def Let_def
          recognized_def)
qed

lemma production_calls:
  "\<exists>rest. calls (snd (handle_production_webhook payload)) =
            ''_handle_production_webhook'' # rest \<and> set rest \<subseteq> set status_handlers"
proof (cases "data_block_ok payload")
  case True
  from production_ok(2) [OF True] show ?thesis
    by (auto simp: selected_def status_handlers_def)
next
  case False
  then show ?thesis by (simp add: production_bad)
qed

subsection \<open>The dispatcher\<close>

lemma handle_webhook_valid:
  assumes "fst (verify_webhook_signature L self (json_dumps L (PyDict payload))
                  (dict_get headers (str ''x-signature'') [])) = Inr True"
  shows "handle_webhook L self payload headers =
           (if dict_get headers (str ''x-environment'') (str ''production'') = str ''sandbox''
            then handle_sandbox_webhook payload else handle_production_webhook payload)"
proof -
  from verify_shape [of L self "json_dumps L (PyDict payload)"
      "dict_get headers (str ''x-signature'') []"] assms
  have "verify_webhook_signature L self (json_dumps L (PyDict payload))
          (dict_get headers (str ''x-signature'') []) = (Inr True, [])"
    by auto
  then show ?thesis by (simp add: handle_webhook_def Let_def)
qed


lemma dict_get_Some: "map_of d k = Some v \<Longrightarrow> dict_get d k dflt = v"
  by (simp add: dict_get_def)

lemma dict_get_None: "map_of d k = None \<Longrightarrow> dict_get d k dflt = dflt"
  by (simp add: dict_get_def)

text \<open>
  A signed payload whose \<open>data\<close> entry is neither absent nor a dict makes either branch
  raise \<open>AttributeError\<close> at its first \<open>payload.get('data', {}).get(...)\<close>.
\<close>

lemma malformed_data_raises:
  assumes valid: "fst (verify_webhook_signature L self (json_dumps L (PyDict payload))
                  (dict_get headers (str ''x-signature'') [])) = Inr True"
      and bad: "\<not> data_block_ok payload"
  shows "handle_webhook L self payload headers =
           (Inl AttributeError,
            [Call (if dict_get headers (str ''x-environment'') (str ''production'') = str ''sandbox''
                   then ''_handle_sandbox_webhook'' else ''_handle_production_webhook'')])"
  by (simp add: handle_webhook_valid [OF valid] sandbox_bad [OF bad] production_bad [OF bad])

subsection \<open>Construction of a client\<close>

lemma init_eq:
  "init L mk ak env secret tmo =
     (if lower L env \<noteq> str ''sandbox'' \<and> lower L env \<noteq> str ''production''
      then (Inl (ValueError (str (''Environment must be either '' @ quoted ''sandbox'' @ '' or ''
                          @ quoted ''production''))), [])
      else (Inr \<lparr> base_url = str ''https://heleerra.com'', merchant_key = mk, api_key = ak,
                  environment = lower L env,
                  webhook_secret =
                    (if no_secret secret
                     then Some (if lower L env = str ''sandbox''
                                then str ''test_webhook_secret'' else str ''webhook_secret'')
                     else secret),
                  timeout = tmo \<rparr>,
            [Log INFO ''Heleerra API client initialized for {} environment''
               [V (PyStr (lower L env))] []]))"
  by (simp add: init_def Let_def py_raise_def py_return_def logger_simps)

lemma no_secret_iff: "no_secret s \<longleftrightarrow> s = None \<or> s = Some []"
  by (cases s) auto

lemma init_secret:
  assumes "fst (init L mk ak env secret tmo) = Inr self"
  shows "\<exists>s. webhook_secret self = Some s \<and> s \<noteq> [] \<and>
             (no_secret secret \<longrightarrow>
                s = (if environment self = str ''sandbox''
                     then str ''test_webhook_secret'' else str ''webhook_secret'')) \<and>
             (\<not> no_secret secret \<longrightarrow> secret = Some s)"
  using assms by (cases secret) (auto simp: init_eq split: if_splits)

lemma init_environment:
  assumes "fst (init L mk ak env secret tmo) = Inr self"
  shows "environment self = str ''sandbox'' \<or> environment self = str ''production''"
  using assms by (auto simp: init_eq split: if_splits)

lemma verify_trace_secret:
  assumes "webhook_secret self = Some s" "s \<noteq> []"
  shows "Log WARNING ''Webhook secret not configured'' [] []
           \<notin> set (snd (verify_webhook_signature L self p sg))"
  using assms by (auto simp: verify_eq verify_digest_eq split: sum.splits)

lemma verify_digest_failures:
  "(\<exists>e. fst (verify_digest L secret payload signature) = Inl e) \<longleftrightarrow>
     (\<exists>e. encode_utf8 secret = Inl e) \<or> (\<exists>e. encode_utf8 payload = Inl e) \<or>
     \<not> is_ascii signature"
  by (auto simp: verify_digest_eq split: sum.splits)

subsection \<open>The encodings are injective\<close>













subsection \<open>Validation\<close>

lemma check_required_fails:
  "list_ex (missing_or_empty pd) fs \<Longrightarrow> \<exists>m. check_required fs pd = Inl (ValueError m)"
  by (induction fs) (auto simp: missing_or_empty_def split: option.splits)

lemma check_required_passes:
  "\<not> list_ex (missing_or_empty pd) fs \<Longrightarrow> check_required fs pd = Inr ()"
  by (induction fs) (auto simp: missing_or_empty_def split: option.splits)

lemma check_required_cases:
  "check_required fs pd = Inr () \<or> (\<exists>m. check_required fs pd = Inl (ValueError m))"
  by (induction fs) (auto split: option.splits)

lemma check_amount_cases:
  "check_amount a = Inr () \<or> (\<exists>m. check_amount a = Inl (ValueError m))"
  by (simp add: check_amount_def)

lemma check_urls_passes:
  "list_all (url_ok pd) fs \<Longrightarrow> check_urls fs pd = Inr ()"
  by (induction fs) (auto simp: url_ok_def split: option.splits)

lemma at_least_one_accepted:
  "at_least_one a \<Longrightarrow> truthy a \<and> is_number a \<and> \<not> less_than_one a"
  by (cases a rule: at_least_one.cases) auto

lemma check_currency_str:
  "check_currency L (PyStr cur) =
     (if length cur = 3 \<and> list_all (alphabetic L) cur then Inr ()
      else Inl (ValueError (str ''Currency code must be a 3-letter code (e.g., USD)'')))"
  by (auto simp: check_currency_def)

lemma validate_required:
  assumes "list_ex (missing_or_empty pd) required_fields"
  shows "\<exists>m. validate_payment_data L pd = Inl (ValueError m)"
proof -
  from check_required_fails [OF assms] obtain m
    where "check_required required_fields pd = Inl (ValueError m)" by blast
  then show ?thesis by (simp add: validate_payment_data_def)
qed

lemma validate_passes:
  assumes a: "map_of pd (str ''payment_amount'') = Some a"
      and ta: "truthy a" and na: "is_number a" and la: "\<not> less_than_one a"
      and c: "map_of pd (str ''currency_code'') = Some (PyStr cur)"
      and lc: "length cur = 3" and ac: "list_all (alphabetic L) cur"
      and r: "map_of pd (str ''ref_trx'') = Some ref" and tr: "truthy ref"
      and u: "list_all (url_ok pd) url_fields"
  shows "validate_payment_data L pd = Inr ()"
proof -
  from lc have "cur \<noteq> []" by auto
  with a ta c r tr have "\<not> list_ex (missing_or_empty pd) required_fields"
    by (simp add: required_fields_def missing_or_empty_def)
  then have req: "check_required required_fields pd = Inr ()"
    by (rule check_required_passes)
  from na la have am: "check_amount a = Inr ()" by (simp add: check_amount_def)
  from lc ac have cu: "check_currency L (PyStr cur) = Inr ()" by (simp add: check_currency_str)
  from u have "check_urls url_fields pd = Inr ()" by (rule check_urls_passes)
  with req am cu a c show ?thesis by (simp add: validate_payment_data_def)
qed

lemma validate_amount_rejected:
  assumes a: "map_of pd (str ''payment_amount'') = Some a"
      and bad: "\<not> is_number a \<or> less_than_one a"
  shows "\<exists>m. validate_payment_data L pd = Inl (ValueError m)"
proof -
  from bad have am: "\<exists>m. check_amount a = Inl (ValueError m)" by (auto simp: check_amount_def)
  from check_required_cases [of required_fields pd] show ?thesis
  proof
    assume "check_required required_fields pd = Inr ()"
    with a am show ?thesis by (auto simp: validate_payment_data_def)
  next
    assume "\<exists>m. check_required required_fields pd = Inl (ValueError m)"
    then show ?thesis by (auto simp: validate_payment_data_def)
  qed
qed

lemma validate_currency_rejected:
  assumes c: "map_of pd (str ''currency_code'') = Some (PyStr cur)"
      and bad: "length cur \<noteq> 3 \<or> \<not> list_all (alphabetic L) cur"
  shows "\<exists>m. validate_payment_data L pd = Inl (ValueError m)"
proof -
  from bad have cu: "\<exists>m. check_currency L (PyStr cur) = Inl (ValueError m)"
    by (auto simp: check_currency_str)
  from check_required_cases [of required_fields pd] show ?thesis
  proof
    assume req: "check_required required_fields pd = Inr ()"
    show ?thesis
    proof (cases "map_of pd (str ''payment_amount'')")
      case None
      have "missing_or_empty pd ''payment_amount''" using None by (simp add: missing_or_empty_def)
      then have "list_ex (missing_or_empty pd) required_fields" by (simp add: required_fields_def)
      from validate_required [OF this] show ?thesis .
    next
      case (Some a)
      from check_amount_cases [of a] show ?thesis
      proof
        assume "check_amount a = Inr ()"
        with req Some c cu show ?thesis by (auto simp: validate_payment_data_def)
      next
        assume "\<exists>m. check_amount a = Inl (ValueError m)"
        with req Some show ?thesis by (auto simp: validate_payment_data_def)
      qed
    qed
  next
    assume "\<exists>m. check_required required_fields pd = Inl (ValueError m)"
    then show ?thesis by (auto simp: validate_payment_data_def)
  qed
qed

subsection \<open>A signature check returns a boolean\<close>


subsection \<open>The examples\<close>

lemma init_demo:
  "fst (init ascii_lib (str ''merchant'') (str ''key'') (str ''sandbox'') None 30) = Inr demo_client"
  by (simp add: init_eq ascii_lib_def demo_client_def str_def)

lemma encode_secret:
  "encode_utf8 (str ''test_webhook_secret'') = Inr (map of_nat (str ''test_webhook_secret''))"
  by (simp add: str_def utf8_char_def)

lemma encode_braces: "encode_utf8 (str ''{}'') = Inr [123, 125]"
  by (simp add: str_def utf8_char_def)

lemma demo_signature_eq:
  "demo_signature = hexdigest (map of_nat (str ''test_webhook_secret'') @ [123, 125])"
  by (simp add: demo_signature_def sign_def encode_secret encode_braces ascii_lib_def)

lemma demo_valid:
  "fst (verify_webhook_signature ascii_lib demo_client (str ''{}'') demo_signature) = Inr True"
  by (simp add: verify_true_iff demo_client_def demo_signature_eq encode_secret encode_braces
        ascii_lib_def)

lemma demo_valid_payload:
  "fst (verify_webhook_signature ascii_lib demo_client (json_dumps ascii_lib (PyDict payload))
          demo_signature) = Inr True"
  using demo_valid by (simp add: ascii_lib_def)




lemma demo_valid_header:
  "map_of headers (str ''x-signature'') = Some demo_signature \<Longrightarrow>
   fst (verify_webhook_signature ascii_lib demo_client (json_dumps ascii_lib (PyDict payload))
          (dict_get headers (str ''x-signature'') [])) = Inr True"
  by (simp add: dict_get_Some demo_valid_payload)

lemma usd_alphabetic: "list_all (alphabetic ascii_lib) (str ''USD'')"
  by (simp add: ascii_lib_def str_def)

section \<open>The claims\<close>





text \<open>
  Claim C3, amended. A \<open>payment_amount\<close> that is a number below \<open>1.00\<close> makes validation
  raise \<open>ValueError\<close>. A \<open>payment_amount\<close> that is a number at least \<open>1.00\<close>, with a
  \<open>currency_code\<close> of three alphabetic code points, a truthy \<open>ref_trx\<close> and every URL
  field absent, falsy or a \<open>str\<close> starting with \<open>http\<close>, makes validation pass.
\<close>

theorem amount_bound:
  "(map_of payment_data (str ''payment_amount'') = Some amount \<and> is_number amount \<and>
    less_than_one amount \<longrightarrow>
      (\<exists>m. validate_payment_data L payment_data = Inl (ValueError m))) \<and>
   (map_of payment_data (str ''payment_amount'') = Some amount \<and> is_number amount \<and>
    at_least_one amount \<and>
    map_of payment_data (str ''currency_code'') = Some (PyStr currency) \<and>
    length currency = 3 \<and> list_all (alphabetic L) currency \<and>
    map_of payment_data (str ''ref_trx'') = Some ref \<and> truthy ref \<and>
    list_all (url_ok payment_data) url_fields \<longrightarrow>
      validate_payment_data L payment_data = Inr ())"
proof (intro conjI impI)
  assume "map_of payment_data (str ''payment_amount'') = Some amount \<and> is_number amount \<and>
    less_than_one amount"
  then show "\<exists>m. validate_payment_data L payment_data = Inl (ValueError m)"
    by (auto intro: validate_amount_rejected)
next
  assume a: "map_of payment_data (str ''payment_amount'') = Some amount \<and> is_number amount \<and>
    at_least_one amount \<and>
    map_of payment_data (str ''currency_code'') = Some (PyStr currency) \<and>
    length currency = 3 \<and> list_all (alphabetic L) currency \<and>
    map_of payment_data (str ''ref_trx'') = Some ref \<and> truthy ref \<and>
    list_all (url_ok payment_data) url_fields"
  then have "truthy amount \<and> is_number amount \<and> \<not> less_than_one amount"
    by (auto dest: at_least_one_accepted)
  with a show "validate_payment_data L payment_data = Inr ()"
    by (auto intro: validate_passes)
qed

theorem amount_bound_witness:
  "map_of [(str ''payment_amount'', PyFloat (FNum (1/2))),
           (str ''currency_code'', PyStr (str ''USD'')), (str ''ref_trx'', PyStr (str ''T1''))]
     (str ''payment_amount'') = Some (PyFloat (FNum (1/2))) \<and>
   is_number (PyFloat (FNum (1/2))) \<and> less_than_one (PyFloat (FNum (1/2))) \<and>
   (\<exists>m. validate_payment_data ascii_lib
          [(str ''payment_amount'', PyFloat (FNum (1/2))),
           (str ''currency_code'', PyStr (str ''USD'')), (str ''ref_trx'', PyStr (str ''T1''))]
        = Inl (ValueError m)) \<and>
   is_number (PyFloat (FNum 250)) \<and> at_least_one (PyFloat (FNum 250)) \<and>
   list_all (alphabetic ascii_lib) (str ''USD'') \<and>
   list_all (url_ok [(str ''payment_amount'', PyFloat (FNum 250)),
                     (str ''currency_code'', PyStr (str ''USD'')),
                     (str ''ref_trx'', PyStr (str ''T1'')),
                     (str ''ipn_url'', PyStr (str ''https://yoursite.com/webhooks/heleerra''))])
     url_fields \<and>
   validate_payment_data ascii_lib
     [(str ''payment_amount'', PyFloat (FNum 250)),
      (str ''currency_code'', PyStr (str ''USD'')),
      (str ''ref_trx'', PyStr (str ''T1'')),
      (str ''ipn_url'', PyStr (str ''https://yoursite.com/webhooks/heleerra''))] = Inr ()"
proof -
  let ?bad = "[(str ''payment_amount'', PyFloat (FNum (1/2))),
           (str ''currency_code'', PyStr (str ''USD'')), (str ''ref_trx'', PyStr (str ''T1''))]"
  let ?good = "[(str ''payment_amount'', PyFloat (FNum 250)),
                     (str ''currency_code'', PyStr (str ''USD'')),
                     (str ''ref_trx'', PyStr (str ''T1'')),
                     (str ''ipn_url'', PyStr (str ''https://yoursite.com/webhooks/heleerra''))]"
  have b: "map_of ?bad (str ''payment_amount'') = Some (PyFloat (FNum (1/2)))"
    "is_number (PyFloat (FNum (1/2)))" "less_than_one (PyFloat (FNum (1/2)))"
    by simp_all
  have u: "list_all (url_ok ?good) url_fields"
    by (simp add: url_fields_def url_ok_def str_def)
  have g: "map_of ?good (str ''payment_amount'') = Some (PyFloat (FNum 250))"
    "is_number (PyFloat (FNum 250))" "at_least_one (PyFloat (FNum 250))"
    "map_of ?good (str ''currency_code'') = Some (PyStr (str ''USD''))"
    "length (str ''USD'') = 3"
    "map_of ?good (str ''ref_trx'') = Some (PyStr (str ''T1''))" "truthy (PyStr (str ''T1''))"
    by simp_all
  from amount_bound [of ?bad "PyFloat (FNum (1/2))" ascii_lib] b
  have r1: "\<exists>m. validate_payment_data ascii_lib ?bad = Inl (ValueError m)" by blast
  from amount_bound [of ?good "PyFloat (FNum 250)" ascii_lib "str ''USD''" "PyStr (str ''T1'')"]
    g u usd_alphabetic
  have r2: "validate_payment_data ascii_lib ?good = Inr ()" by blast
  from b r1 g u usd_alphabetic r2 show ?thesis by blast
qed

text \<open>
  The claim as written forgets the URL fields: an amount of 10, the currency \<open>USD\<close> and a
  reference, with a \<open>success_redirect\<close> that does not start with \<open>http\<close>, is rejected.
\<close>

theorem amount_bound_counterexample:
  "map_of [(str ''payment_amount'', PyInt 10), (str ''currency_code'', PyStr (str ''USD'')),
           (str ''ref_trx'', PyStr (str ''T1'')),
           (str ''success_redirect'', PyStr (str ''ftp://yoursite.com/success''))]
     (str ''payment_amount'') = Some (PyInt 10) \<and>
   is_number (PyInt 10) \<and> at_least_one (PyInt 10) \<and>
   check_currency ascii_lib (PyStr (str ''USD'')) = Inr () \<and>
   truthy (PyStr (str ''T1'')) \<and>
   validate_payment_data ascii_lib
     [(str ''payment_amount'', PyInt 10), (str ''currency_code'', PyStr (str ''USD'')),
      (str ''ref_trx'', PyStr (str ''T1'')),
      (str ''success_redirect'', PyStr (str ''ftp://yoursite.com/success''))]
     = Inl (ValueError (str ''success_redirect must be a valid URL''))"
  by (simp add: validate_payment_data_def required_fields_def url_fields_def check_amount_def
        check_currency_str usd_alphabetic)
     (simp add: str_def)

text \<open>
  Claim C4, amended. With an accepted amount, a truthy reference and every URL field
  absent, falsy or a \<open>str\<close> starting with \<open>http\<close>, a \<open>currency_code\<close> that is a \<open>str\<close> of
  three alphabetic code points makes validation pass. A \<open>currency_code\<close> that is a \<open>str\<close>
  of any other length, or with a code point that is not alphabetic, makes validation
  raise \<open>ValueError\<close>, whatever the other fields are.
\<close>

theorem currency_code_shape:
  "(map_of payment_data (str ''payment_amount'') = Some amount \<and> truthy amount \<and>
    is_number amount \<and> \<not> less_than_one amount \<and>
    map_of payment_data (str ''ref_trx'') = Some ref \<and> truthy ref \<and>
    list_all (url_ok payment_data) url_fields \<and>
    map_of payment_data (str ''currency_code'') = Some (PyStr currency) \<and>
    length currency = 3 \<and> list_all (alphabetic L) currency \<longrightarrow>
      validate_payment_data L payment_data = Inr ()) \<and>
   (map_of payment_data (str ''currency_code'') = Some (PyStr currency) \<and>
    (length currency \<noteq> 3 \<or> \<not> list_all (alphabetic L) currency) \<longrightarrow>
      (\<exists>m. validate_payment_data L payment_data = Inl (ValueError m)))"
proof (intro conjI impI)
  assume "map_of payment_data (str ''payment_amount'') = Some amount \<and> truthy amount \<and>
    is_number amount \<and> \<not> less_than_one amount \<and>
    map_of payment_data (str ''ref_trx'') = Some ref \<and> truthy ref \<and>
    list_all (url_ok payment_data) url_fields \<and>
    map_of payment_data (str ''currency_code'') = Some (PyStr currency) \<and>
    length currency = 3 \<and> list_all (alphabetic L) currency"
  then show "validate_payment_data L payment_data = Inr ()"
    by (auto intro: validate_passes)
next
  assume "map_of payment_data (str ''currency_code'') = Some (PyStr currency) \<and>
    (length currency \<noteq> 3 \<or> \<not> list_all (alphabetic L) currency)"
  then show "\<exists>m. validate_payment_data L payment_data = Inl (ValueError m)"
    by (blast intro: validate_currency_rejected)
qed

theorem currency_code_shape_witness:
  "truthy (PyInt 10) \<and> is_number (PyInt 10) \<and> \<not> less_than_one (PyInt 10) \<and>
   truthy (PyStr (str ''T1'')) \<and>
   list_all (url_ok [(str ''payment_amount'', PyInt 10),
                     (str ''currency_code'', PyStr (str ''USD'')),
                     (str ''ref_trx'', PyStr (str ''T1''))]) url_fields \<and>
   length (str ''USD'') = 3 \<and> list_all (alphabetic ascii_lib) (str ''USD'') \<and>
   validate_payment_data ascii_lib
     [(str ''payment_amount'', PyInt 10), (str ''currency_code'', PyStr (str ''USD'')),
      (str ''ref_trx'', PyStr (str ''T1''))] = Inr () \<and>
   \<not> list_all (alphabetic ascii_lib) (str ''U5D'') \<and>
   (\<exists>m. validate_payment_data ascii_lib
          [(str ''payment_amount'', PyInt 10), (str ''currency_code'', PyStr (str ''U5D'')),
           (str ''ref_trx'', PyStr (str ''T1''))] = Inl (ValueError m)) \<and>
   length (str ''USDT'') \<noteq> 3 \<and>
   (\<exists>m. validate_payment_data ascii_lib
          [(str ''payment_amount'', PyInt 10), (str ''currency_code'', PyStr (str ''USDT'')),
           (str ''ref_trx'', PyStr (str ''T1''))] = Inl (ValueError m))"
proof -
  let ?good = "[(str ''payment_amount'', PyInt 10), (str ''currency_code'', PyStr (str ''USD'')),
      (str ''ref_trx'', PyStr (str ''T1''))]"
  let ?digit = "[(str ''payment_amount'', PyInt 10), (str ''currency_code'', PyStr (str ''U5D'')),
           (str ''ref_trx'', PyStr (str ''T1''))]"
  let ?long = "[(str ''payment_amount'', PyInt 10), (str ''currency_code'', PyStr (str ''USDT'')),
           (str ''ref_trx'', PyStr (str ''T1''))]"
  have g: "map_of ?good (str ''payment_amount'') = Some (PyInt 10)"
    "truthy (PyInt 10)" "is_number (PyInt 10)" "\<not> less_than_one (PyInt 10)"
    "map_of ?good (str ''ref_trx'') = Some (PyStr (str ''T1''))" "truthy (PyStr (str ''T1''))"
    "map_of ?good (str ''currency_code'') = Some (PyStr (str ''USD''))"
    "length (str ''USD'') = 3"
    by simp_all
  have u: "list_all (url_ok ?good) url_fields"
    by (simp add: url_fields_def url_ok_def)
  have d: "map_of ?digit (str ''currency_code'') = Some (PyStr (str ''U5D''))"
    "\<not> list_all (alphabetic ascii_lib) (str ''U5D'')"
    by (simp_all add: ascii_lib_def str_def)
  have l: "map_of ?long (str ''currency_code'') = Some (PyStr (str ''USDT''))"
    "length (str ''USDT'') \<noteq> 3"
    by simp_all
  from currency_code_shape [of ?good "PyInt 10" "PyStr (str ''T1'')" "str ''USD''" ascii_lib]
    g u usd_alphabetic
  have r1: "validate_payment_data ascii_lib ?good = Inr ()" by blast
  from currency_code_shape [of ?digit _ _ "str ''U5D''" ascii_lib] d
  have r2: "\<exists>m. validate_payment_data ascii_lib ?digit = Inl (ValueError m)" by blast
  from currency_code_shape [of ?long _ _ "str ''USDT''" ascii_lib] l
  have r3: "\<exists>m. validate_payment_data ascii_lib ?long = Inl (ValueError m)" by blast
  from g u usd_alphabetic r1 d r2 l r3 show ?thesis by blast
qed

text \<open>
  The claim as written forgets the URL fields: a valid amount and reference and the
  currency \<open>EUR\<close>, with an \<open>ipn_url\<close> that does not start with \<open>http\<close>, is rejected.
\<close>

theorem currency_code_shape_counterexample:
  "truthy (PyFloat (FNum 250)) \<and> is_number (PyFloat (FNum 250)) \<and>
   \<not> less_than_one (PyFloat (FNum 250)) \<and> truthy (PyStr (str ''ORDER_1'')) \<and>
   length (str ''EUR'') = 3 \<and> list_all (alphabetic ascii_lib) (str ''EUR'') \<and>
   validate_payment_data ascii_lib
     [(str ''payment_amount'', PyFloat (FNum 250)),
      (str ''currency_code'', PyStr (str ''EUR'')),
      (str ''ref_trx'', PyStr (str ''ORDER_1'')),
      (str ''ipn_url'', PyStr (str ''yoursite.com/webhooks/heleerra''))]
     = Inl (ValueError (str ''ipn_url must be a valid URL''))"
proof -
  have a: "list_all (alphabetic ascii_lib) (str ''EUR'')"
    by (simp add: ascii_lib_def str_def)
  have "startswith (PyStr (str ''yoursite.com/webhooks/heleerra'')) (str ''http'') = Inr False"
    by (simp add: str_def)
  then have "validate_payment_data ascii_lib
     [(str ''payment_amount'', PyFloat (FNum 250)),
      (str ''currency_code'', PyStr (str ''EUR'')),
      (str ''ref_trx'', PyStr (str ''ORDER_1'')),
      (str ''ipn_url'', PyStr (str ''yoursite.com/webhooks/heleerra''))]
     = Inl (ValueError (str ''ipn_url must be a valid URL''))"
    by (simp add: validate_payment_data_def required_fields_def url_fields_def check_amount_def
        check_currency_str a del: startswith.simps)
  with a show ?thesis by simp
qed

text \<open>
  Claim C5. When one of \<open>payment_amount\<close>, \<open>currency_code\<close>, \<open>ref_trx\<close> is absent or falsy,
  validation raises \<open>ValueError\<close>, and \<open>initiate_payment\<close> raises the same error with no
  event at all: no log record and no request.
\<close>

theorem missing_required_field_rejected:
  assumes "list_ex (missing_or_empty payment_data) required_fields"
  shows "\<exists>m. validate_payment_data L payment_data = Inl (ValueError m) \<and>
             initiate_payment L self payment_data = (Inl (ValueError m), []) \<and>
             requests_sent (snd (initiate_payment L self payment_data)) = []"
proof -
  from validate_required [OF assms] obtain m
    where m: "validate_payment_data L payment_data = Inl (ValueError m)" by blast
  then have "initiate_payment L self payment_data = (Inl (ValueError m), [])"
    by (simp add: initiate_payment_def)
  with m show ?thesis by simp
qed

theorem missing_required_field_rejected_witness:
  "list_ex (missing_or_empty [(str ''payment_amount'', PyInt 10),
                              (str ''currency_code'', PyStr (str ''USD''))]) required_fields \<and>
   validate_payment_data ascii_lib
     [(str ''payment_amount'', PyInt 10), (str ''currency_code'', PyStr (str ''USD''))]
     = Inl (ValueError (str (''Required field '' @ quoted ''ref_trx'' @ '' is missing or empty''))) \<and>
   initiate_payment ascii_lib demo_client
     [(str ''payment_amount'', PyInt 10), (str ''currency_code'', PyStr (str ''USD''))]
     = (Inl (ValueError (str (''Required field '' @ quoted ''ref_trx'' @ '' is missing or empty''))), []) \<and>
   requests_sent (snd (initiate_payment ascii_lib demo_client
     [(str ''payment_amount'', PyInt 10), (str ''currency_code'', PyStr (str ''USD''))])) = []"
proof -
  let ?pd = "[(str ''payment_amount'', PyInt 10), (str ''currency_code'', PyStr (str ''USD''))]"
  have h: "list_ex (missing_or_empty ?pd) required_fields"
    by (simp add: required_fields_def missing_or_empty_def)
  have v: "validate_payment_data ascii_lib ?pd
     = Inl (ValueError (str (''Required field '' @ quoted ''ref_trx'' @ '' is missing or empty'')))"
    by (simp add: validate_payment_data_def required_fields_def)
  from missing_required_field_rejected [OF h, of ascii_lib demo_client] h v
  show ?thesis by auto
qed

text \<open>
  Claim C6, amended. A signature-valid payload with the header \<open>x-environment\<close> equal to
  \<open>sandbox\<close> enters \<open>_handle_sandbox_webhook\<close> only, and none of the four status
  handlers, whatever its status; when the \<open>data\<close> entry of the payload is absent or a
  dict, the result is \<open>{status: sandbox_processed, message: Webhook processed in sandbox
  mode}\<close>.
\<close>

theorem sandbox_never_reaches_status_handlers:
  assumes valid: "fst (verify_webhook_signature L self (json_dumps L (PyDict payload))
                  (dict_get headers (str ''x-signature'') [])) = Inr True"
      and env: "map_of headers (str ''x-environment'') = Some (str ''sandbox'')"
  shows "calls (snd (handle_webhook L self payload headers)) = [''_handle_sandbox_webhook''] \<and>
         status_calls (snd (handle_webhook L self payload headers)) = [] \<and>
         (data_block_ok payload \<longrightarrow>
            fst (handle_webhook L self payload headers) = Inr sandbox_result)"
proof -
  from env have "dict_get headers (str ''x-environment'') (str ''production'') = str ''sandbox''"
    by (rule dict_get_Some)
  with handle_webhook_valid [OF valid]
  have hw: "handle_webhook L self payload headers = handle_sandbox_webhook payload" by simp
  have c: "calls (snd (handle_webhook L self payload headers)) = [''_handle_sandbox_webhook'']"
    by (simp add: hw sandbox_calls)
  have s: "status_calls (snd (handle_webhook L self payload headers)) = []"
    by (simp add: status_calls_def c status_handlers_def)
  have r: "fst (handle_webhook L self payload headers) = Inr sandbox_result"
    if "data_block_ok payload"
    using sandbox_ok [OF that] by (auto simp: hw)
  from c s r show ?thesis by blast
qed

theorem sandbox_never_reaches_status_handlers_witness:
  "fst (verify_webhook_signature ascii_lib demo_client
          (json_dumps ascii_lib
             (PyDict [(str ''status'', PyStr (str ''completed'')),
                      (str ''data'', PyDict [(str ''ref_trx'', PyStr (str ''T1'')),
                                             (str ''amount'', PyInt 10)])]))
          (dict_get [(str ''x-signature'', demo_signature),
                     (str ''x-environment'', str ''sandbox'')] (str ''x-signature'') []))
     = Inr True \<and>
   map_of [(str ''x-signature'', demo_signature), (str ''x-environment'', str ''sandbox'')]
     (str ''x-environment'') = Some (str ''sandbox'') \<and>
   data_block_ok [(str ''status'', PyStr (str ''completed'')),
                  (str ''data'', PyDict [(str ''ref_trx'', PyStr (str ''T1'')),
                                         (str ''amount'', PyInt 10)])] \<and>
   calls (snd (handle_webhook ascii_lib demo_client
                 [(str ''status'', PyStr (str ''completed'')),
                  (str ''data'', PyDict [(str ''ref_trx'', PyStr (str ''T1'')),
                                         (str ''amount'', PyInt 10)])]
                 [(str ''x-signature'', demo_signature),
                  (str ''x-environment'', str ''sandbox'')])) = [''_handle_sandbox_webhook''] \<and>
   status_calls (snd (handle_webhook ascii_lib demo_client
                 [(str ''status'', PyStr (str ''completed'')),
                  (str ''data'', PyDict [(str ''ref_trx'', PyStr (str ''T1'')),
                                         (str ''amount'', PyInt 10)])]
                 [(str ''x-signature'', demo_signature),
                  (str ''x-environment'', str ''sandbox'')])) = [] \<and>
   fst (handle_webhook ascii_lib demo_client
          [(str ''status'', PyStr (str ''completed'')),
           (str ''data'', PyDict [(str ''ref_trx'', PyStr (str ''T1'')),
                                  (str ''amount'', PyInt 10)])]
          [(str ''x-signature'', demo_signature),
           (str ''x-environment'', str ''sandbox'')]) = Inr sandbox_result"
proof -
  let ?P = "[(str ''status'', PyStr (str ''completed'')),
             (str ''data'', PyDict [(str ''ref_trx'', PyStr (str ''T1'')),
                                    (str ''amount'', PyInt 10)])]"
  let ?H = "[(str ''x-signature'', demo_signature), (str ''x-environment'', str ''sandbox'')]"
  have v: "fst (verify_webhook_signature ascii_lib demo_client
                  (json_dumps ascii_lib (PyDict ?P)) (dict_get ?H (str ''x-signature'') []))
             = Inr True"
    by (rule demo_valid_header) simp
  have e: "map_of ?H (str ''x-environment'') = Some (str ''sandbox'')" by simp
  have d: "data_block_ok ?P" by (simp add: data_block_ok_def dict_get_def)
  from sandbox_never_reaches_status_handlers [OF v e] v e d show ?thesis by blast
qed

text \<open>
  The claim as written promises the fixed result for every signed payload: with
  \<open>data: null\<close> the sandbox branch raises \<open>AttributeError\<close> instead.
\<close>

theorem sandbox_malformed_data_counterexample:
  "fst (verify_webhook_signature ascii_lib demo_client
          (json_dumps ascii_lib
             (PyDict [(str ''status'', PyStr (str ''completed'')), (str ''data'', PyNone)]))
          (dict_get [(str ''x-signature'', demo_signature),
                     (str ''x-environment'', str ''sandbox'')] (str ''x-signature'') []))
     = Inr True \<and>
   map_of [(str ''x-signature'', demo_signature), (str ''x-environment'', str ''sandbox'')]
     (str ''x-environment'') = Some (str ''sandbox'') \<and>
   handle_webhook ascii_lib demo_client
     [(str ''status'', PyStr (str ''completed'')), (str ''data'', PyNone)]
     [(str ''x-signature'', demo_signature), (str ''x-environment'', str ''sandbox'')]
     = (Inl AttributeError, [Call ''_handle_sandbox_webhook''])"
proof -
  let ?P = "[(str ''status'', PyStr (str ''completed'')), (str ''data'', PyNone)]"
  let ?H = "[(str ''x-signature'', demo_signature), (str ''x-environment'', str ''sandbox'')]"
  have v: "fst (verify_webhook_signature ascii_lib demo_client
                  (json_dumps ascii_lib (PyDict ?P)) (dict_get ?H (str ''x-signature'') []))
             = Inr True"
    by (rule demo_valid_header) simp
  have e: "map_of ?H (str ''x-environment'') = Some (str ''sandbox'')" by simp
  have d: "\<not> data_block_ok ?P" by (simp add: data_block_ok_def dict_get_def)
  have "handle_webhook ascii_lib demo_client ?P ?H = handle_sandbox_webhook ?P"
    using handle_webhook_valid [OF v] by (simp add: dict_get_def)
  with sandbox_bad [OF d] v e show ?thesis by simp
qed

text \<open>
  Claim C7, amended. A signature-valid payload outside the sandbox branch whose status
  (\<open>unknown\<close> when absent) is none of \<open>completed\<close>, \<open>failed\<close>, \<open>cancelled\<close>, \<open>expired\<close> enters
  none of the four status handlers; when its \<open>data\<close> entry is absent or a dict, the
  warning \<open>Unknown payment status in webhook\<close> is logged and the result is
  \<open>{status: processed, message: Webhook processed successfully}\<close>, the result the
  production branch returns for every status.
\<close>

theorem unknown_status_is_noop:
  assumes valid: "fst (verify_webhook_signature L self (json_dumps L (PyDict payload))
                  (dict_get headers (str ''x-signature'') [])) = Inr True"
      and env: "map_of headers (str ''x-environment'') \<noteq> Some (str ''sandbox'')"
      and un: "\<not> recognized (dict_get payload (str ''status'') (PyStr (str ''unknown'')))"
  shows "status_calls (snd (handle_webhook L self payload headers)) = [] \<and>
         (data_block_ok payload \<longrightarrow>
            fst (handle_webhook L self payload headers) = Inr processed_result \<and>
            (\<exists>v. Log WARNING ''Unknown payment status in webhook'' []
                   [(''status'', V (dict_get payload (str ''status'') (PyStr (str ''unknown'')))),
                    (''transaction_id'', V v)]
                  \<in> set (snd (handle_webhook L self payload headers)))) \<and>
         (\<forall>payload'. data_block_ok payload' \<longrightarrow>
            fst (handle_production_webhook payload') = Inr processed_result)"
proof -
  from env have "dict_get headers (str ''x-environment'') (str ''production'') \<noteq> str ''sandbox''"
    by (cases "map_of headers (str ''x-environment'')") (simp_all add: dict_get_def)
  with handle_webhook_valid [OF valid]
  have hw: "handle_webhook L self payload headers = handle_production_webhook payload" by simp
  from un have sel: "selected (dict_get payload (str ''status'') (PyStr (str ''unknown''))) = []"
    by (simp add: selected_def recognized_def)
  have s: "status_calls (snd (handle_webhook L self payload headers)) = []"
  proof (cases "data_block_ok payload")
    case True
    from production_ok(2) [OF True] sel show ?thesis
      by (simp add: hw status_calls_def status_handlers_def)
  next
    case False
    then show ?thesis by (simp add: hw production_bad status_calls_def status_handlers_def)
  qed
  have r: "fst (handle_webhook L self payload headers) = Inr processed_result \<and>
            (\<exists>v. Log WARNING ''Unknown payment status in webhook'' []
                   [(''status'', V (dict_get payload (str ''status'') (PyStr (str ''unknown'')))),
                    (''transaction_id'', V v)]
                  \<in> set (snd (handle_webhook L self payload headers)))"
    if "data_block_ok payload"
    using production_ok(1) [OF that] production_unknown_log [OF that sel] by (simp add: hw)
  from s r production_ok(1) show ?thesis by blast
qed

theorem unknown_status_is_noop_witness:
  "fst (verify_webhook_signature ascii_lib demo_client
          (json_dumps ascii_lib
             (PyDict [(str ''status'', PyStr (str ''refunded'')),
                      (str ''data'', PyDict [(str ''ref_trx'', PyStr (str ''T1''))])]))
          (dict_get [(str ''x-signature'', demo_signature)] (str ''x-signature'') []))
     = Inr True \<and>
   map_of [(str ''x-signature'', demo_signature)] (str ''x-environment'')
     \<noteq> Some (str ''sandbox'') \<and>
   \<not> recognized (dict_get [(str ''status'', PyStr (str ''refunded'')),
                            (str ''data'', PyDict [(str ''ref_trx'', PyStr (str ''T1''))])]
                   (str ''status'') (PyStr (str ''unknown''))) \<and>
   data_block_ok [(str ''status'', PyStr (str ''refunded'')),
                  (str ''data'', PyDict [(str ''ref_trx'', PyStr (str ''T1''))])] \<and>
   status_calls (snd (handle_webhook ascii_lib demo_client
                 [(str ''status'', PyStr (str ''refunded'')),
                  (str ''data'', PyDict [(str ''ref_trx'', PyStr (str ''T1''))])]
                 [(str ''x-signature'', demo_signature)])) = [] \<and>
   fst (handle_webhook ascii_lib demo_client
          [(str ''status'', PyStr (str ''refunded'')),
           (str ''data'', PyDict [(str ''ref_trx'', PyStr (str ''T1''))])]
          [(str ''x-signature'', demo_signature)]) = Inr processed_result"
proof -
  let ?P = "[(str ''status'', PyStr (str ''refunded'')),
             (str ''data'', PyDict [(str ''ref_trx'', PyStr (str ''T1''))])]"
  let ?H = "[(str ''x-signature'', demo_signature)]"
  have v: "fst (verify_webhook_signature ascii_lib demo_client
                  (json_dumps ascii_lib (PyDict ?P)) (dict_get ?H (str ''x-signature'') []))
             = Inr True"
    by (rule demo_valid_header) simp
  have e: "map_of ?H (str ''x-environment'') \<noteq> Some (str ''sandbox'')" by simp
  have u: "\<not> recognized (dict_get ?P (str ''status'') (PyStr (str ''unknown'')))"
    by (simp add: recognized_def dict_get_def)
  have d: "data_block_ok ?P" by (simp add: data_block_ok_def dict_get_def)
  from unknown_status_is_noop [OF v e u] v e u d show ?thesis by blast
qed

text \<open>
  The claim as written promises the success-shaped result for every signed payload with
  an unrecognized status: with a \<open>data\<close> entry that is a string the production branch
  raises \<open>AttributeError\<close> before it looks at the status.
\<close>

theorem production_malformed_data_counterexample:
  "fst (verify_webhook_signature ascii_lib demo_client
          (json_dumps ascii_lib
             (PyDict [(str ''status'', PyStr (str ''refunded'')),
                      (str ''data'', PyStr (str ''T1''))]))
          (dict_get [(str ''x-signature'', demo_signature)] (str ''x-signature'') []))
     = Inr True \<and>
   map_of [(str ''x-signature'', demo_signature)] (str ''x-environment'')
     \<noteq> Some (str ''sandbox'') \<and>
   \<not> recognized (dict_get [(str ''status'', PyStr (str ''refunded'')),
                            (str ''data'', PyStr (str ''T1''))]
                   (str ''status'') (PyStr (str ''unknown''))) \<and>
   handle_webhook ascii_lib demo_client
     [(str ''status'', PyStr (str ''refunded'')), (str ''data'', PyStr (str ''T1''))]
     [(str ''x-signature'', demo_signature)]
     = (Inl AttributeError, [Call ''_handle_production_webhook''])"
proof -
  let ?P = "[(str ''status'', PyStr (str ''refunded'')), (str ''data'', PyStr (str ''T1''))]"
  let ?H = "[(str ''x-signature'', demo_signature)]"
  have v: "fst (verify_webhook_signature ascii_lib demo_client
                  (json_dumps ascii_lib (PyDict ?P)) (dict_get ?H (str ''x-signature'') []))
             = Inr True"
    by (rule demo_valid_header) simp
  have e: "map_of ?H (str ''x-environment'') \<noteq> Some (str ''sandbox'')" by simp
  have u: "\<not> recognized (dict_get ?P (str ''status'') (PyStr (str ''unknown'')))"
    by (simp add: recognized_def dict_get_def)
  have d: "\<not> data_block_ok ?P" by (simp add: data_block_ok_def dict_get_def)
  have "handle_webhook ascii_lib demo_client ?P ?H = handle_production_webhook ?P"
    using handle_webhook_valid [OF v] by (simp add: dict_get_def)
  with production_bad [OF d] v e u show ?thesis by simp
qed

text \<open>
  Claim C8. \<open>verify_webhook_signature\<close> always returns a boolean and never raises. It
  returns false when no secret is configured (\<open>None\<close> or the empty string), and it
  returns false when the body of its \<open>try\<close> raises: an encoding error of the secret or
  the payload, or the \<open>TypeError\<close> of \<open>compare_digest\<close> on a signature that is not ASCII.
\<close>

theorem verify_never_raises:
  "(\<exists>b. fst (verify_webhook_signature L self payload signature) = Inr b) \<and>
   (no_secret (webhook_secret self) \<longrightarrow>
      fst (verify_webhook_signature L self payload signature) = Inr False) \<and>
   (\<forall>secret e. webhook_secret self = Some secret \<and>
        fst (verify_digest L secret payload signature) = Inl e \<longrightarrow>
      fst (verify_webhook_signature L self payload signature) = Inr False)"
proof (intro conjI allI impI)
  from verify_shape [of L self payload signature]
  show "\<exists>b. fst (verify_webhook_signature L self payload signature) = Inr b" by auto
next
  assume "no_secret (webhook_secret self)"
  then show "fst (verify_webhook_signature L self payload signature) = Inr False"
    by (simp add: verify_eq)
next
  fix secret e
  assume a: "webhook_secret self = Some secret \<and>
        fst (verify_digest L secret payload signature) = Inl e"
  then show "fst (verify_webhook_signature L self payload signature) = Inr False"
    by (cases "verify_digest L secret payload signature") (auto simp: verify_eq)
qed

theorem verify_never_raises_witness:
  "no_secret (webhook_secret (demo_client \<lparr> webhook_secret := None \<rparr>)) \<and>
   fst (verify_webhook_signature ascii_lib (demo_client \<lparr> webhook_secret := None \<rparr>)
          (str ''{}'') demo_signature) = Inr False \<and>
   webhook_secret demo_client = Some (str ''test_webhook_secret'') \<and>
   fst (verify_digest ascii_lib (str ''test_webhook_secret'') [0xD800] demo_signature)
     = Inl UnicodeEncodeError \<and>
   fst (verify_webhook_signature ascii_lib demo_client [0xD800] demo_signature) = Inr False"
proof -
  have n: "no_secret (webhook_secret (demo_client \<lparr> webhook_secret := None \<rparr>))" by simp
  have s: "webhook_secret demo_client = Some (str ''test_webhook_secret'')"
    by (simp add: demo_client_def)
  have f: "fst (verify_digest ascii_lib (str ''test_webhook_secret'') [0xD800] demo_signature)
             = Inl UnicodeEncodeError"
    by (simp add: verify_digest_eq encode_secret utf8_char_def)
  from verify_never_raises [of ascii_lib "demo_client \<lparr> webhook_secret := None \<rparr>"
      "str ''{}''" demo_signature] n
  have r1: "fst (verify_webhook_signature ascii_lib (demo_client \<lparr> webhook_secret := None \<rparr>)
          (str ''{}'') demo_signature) = Inr False" by blast
  from verify_never_raises [of ascii_lib demo_client "[0xD800]" demo_signature] s f
  have r2: "fst (verify_webhook_signature ascii_lib demo_client [0xD800] demo_signature)
              = Inr False" by blast
  from n r1 s f r2 show ?thesis by blast
qed

text \<open>
  Claim C9. A client that \<open>__init__\<close> constructed has a non-empty secret: the one the
  caller supplied, or, when the caller supplied \<open>None\<close> or the empty string,
  \<open>test_webhook_secret\<close> for sandbox and \<open>webhook_secret\<close> otherwise. No run of
  \<open>verify_webhook_signature\<close> on such a client logs \<open>Webhook secret not configured\<close>.
\<close>

theorem constructed_client_has_secret:
  assumes "fst (init L mk ak env secret tmo) = Inr self"
  shows "(\<exists>s. webhook_secret self = Some s \<and> s \<noteq> [] \<and>
             (no_secret secret \<longrightarrow>
                s = (if environment self = str ''sandbox''
                     then str ''test_webhook_secret'' else str ''webhook_secret'')) \<and>
             (\<not> no_secret secret \<longrightarrow> secret = Some s)) \<and>
         \<not> no_secret (webhook_secret self) \<and>
         (\<forall>p sg. Log WARNING ''Webhook secret not configured'' [] []
                   \<notin> set (snd (verify_webhook_signature L self p sg)))"
proof -
  from init_secret [OF assms] obtain s where s: "webhook_secret self = Some s" "s \<noteq> []"
    "no_secret secret \<longrightarrow>
                s = (if environment self = str ''sandbox''
                     then str ''test_webhook_secret'' else str ''webhook_secret'')"
    "\<not> no_secret secret \<longrightarrow> secret = Some s" by blast
  from s(1,2) have "\<not> no_secret (webhook_secret self)" by simp
  with s verify_trace_secret [OF s(1,2)] show ?thesis by blast
qed

theorem constructed_client_has_secret_witness:
  "fst (init ascii_lib (str ''merchant'') (str ''key'') (str ''sandbox'') None 30)
     = Inr demo_client \<and>
   no_secret None \<and>
   webhook_secret demo_client = Some (str ''test_webhook_secret'') \<and>
   Log WARNING ''Webhook secret not configured'' [] []
     \<notin> set (snd (verify_webhook_signature ascii_lib demo_client (str ''{}'') []))"
proof -
  have s: "webhook_secret demo_client = Some (str ''test_webhook_secret'')"
    by (simp add: demo_client_def)
  from constructed_client_has_secret [OF init_demo]
  have "Log WARNING ''Webhook secret not configured'' [] []
     \<notin> set (snd (verify_webhook_signature ascii_lib demo_client (str ''{}'') []))" by blast
  with init_demo s show ?thesis by simp
qed

text \<open>
  Claim C10. For a signature-valid payload, \<open>handle_webhook\<close> is the production branch
  whenever the header \<open>x-environment\<close> is absent or differs from \<open>sandbox\<close>, and the
  sandbox branch exactly when the header is \<open>sandbox\<close>.
\<close>

theorem environment_header_selects_branch:
  assumes valid: "fst (verify_webhook_signature L self (json_dumps L (PyDict payload))
                  (dict_get headers (str ''x-signature'') [])) = Inr True"
  shows "(map_of headers (str ''x-environment'') \<noteq> Some (str ''sandbox'') \<longrightarrow>
            handle_webhook L self payload headers = handle_production_webhook payload \<and>
            (\<exists>rest. calls (snd (handle_webhook L self payload headers)) =
                      ''_handle_production_webhook'' # rest \<and>
                    ''_handle_sandbox_webhook'' \<notin> set rest)) \<and>
         (map_of headers (str ''x-environment'') = Some (str ''sandbox'') \<longrightarrow>
            handle_webhook L self payload headers = handle_sandbox_webhook payload \<and>
            calls (snd (handle_webhook L self payload headers)) = [''_handle_sandbox_webhook''])"
proof (intro conjI impI)
  assume env: "map_of headers (str ''x-environment'') \<noteq> Some (str ''sandbox'')"
  then have "dict_get headers (str ''x-environment'') (str ''production'') \<noteq> str ''sandbox''"
    by (cases "map_of headers (str ''x-environment'')") (simp_all add: dict_get_def)
  with handle_webhook_valid [OF valid]
  show hw: "handle_webhook L self payload headers = handle_production_webhook payload" by simp
  from production_calls [of payload]
  show "\<exists>rest. calls (snd (handle_webhook L self payload headers)) =
                      ''_handle_production_webhook'' # rest \<and>
                    ''_handle_sandbox_webhook'' \<notin> set rest"
    by (auto simp: hw status_handlers_def)
next
  assume env: "map_of headers (str ''x-environment'') = Some (str ''sandbox'')"
  then have "dict_get headers (str ''x-environment'') (str ''production'') = str ''sandbox''"
    by (rule dict_get_Some)
  with handle_webhook_valid [OF valid]
  show hw: "handle_webhook L self payload headers = handle_sandbox_webhook payload" by simp
  show "calls (snd (handle_webhook L self payload headers)) = [''_handle_sandbox_webhook'']"
    by (simp add: hw sandbox_calls)
qed

theorem environment_header_selects_branch_witness:
  "fst (verify_webhook_signature ascii_lib demo_client
          (json_dumps ascii_lib (PyDict [(str ''status'', PyStr (str ''failed''))]))
          (dict_get [(str ''x-signature'', demo_signature),
                     (str ''x-environment'', str ''Sandbox'')] (str ''x-signature'') []))
     = Inr True \<and>
   map_of [(str ''x-signature'', demo_signature), (str ''x-environment'', str ''Sandbox'')]
     (str ''x-environment'') \<noteq> Some (str ''sandbox'') \<and>
   calls (snd (handle_webhook ascii_lib demo_client [(str ''status'', PyStr (str ''failed''))]
                 [(str ''x-signature'', demo_signature),
                  (str ''x-environment'', str ''Sandbox'')]))
     = [''_handle_production_webhook'', ''_process_failed_payment''] \<and>
   fst (verify_webhook_signature ascii_lib demo_client
          (json_dumps ascii_lib (PyDict [(str ''status'', PyStr (str ''failed''))]))
          (dict_get [(str ''x-signature'', demo_signature),
                     (str ''x-environment'', str ''sandbox'')] (str ''x-signature'') []))
     = Inr True \<and>
   map_of [(str ''x-signature'', demo_signature), (str ''x-environment'', str ''sandbox'')]
     (str ''x-environment'') = Some (str ''sandbox'') \<and>
   calls (snd (handle_webhook ascii_lib demo_client [(str ''status'', PyStr (str ''failed''))]
                 [(str ''x-signature'', demo_signature),
                  (str ''x-environment'', str ''sandbox'')]))
     = [''_handle_sandbox_webhook'']"
proof -
  let ?P = "[(str ''status'', PyStr (str ''failed''))]"
  let ?H1 = "[(str ''x-signature'', demo_signature), (str ''x-environment'', str ''Sandbox'')]"
  let ?H2 = "[(str ''x-signature'', demo_signature), (str ''x-environment'', str ''sandbox'')]"
  have v1: "fst (verify_webhook_signature ascii_lib demo_client
                  (json_dumps ascii_lib (PyDict ?P)) (dict_get ?H1 (str ''x-signature'') []))
             = Inr True"
    by (rule demo_valid_header) simp
  have v2: "fst (verify_webhook_signature ascii_lib demo_client
                  (json_dumps ascii_lib (PyDict ?P)) (dict_get ?H2 (str ''x-signature'') []))
             = Inr True"
    by (rule demo_valid_header) simp
  have e1: "map_of ?H1 (str ''x-environment'') \<noteq> Some (str ''sandbox'')" by simp
  have e2: "map_of ?H2 (str ''x-environment'') = Some (str ''sandbox'')" by simp
  have d: "data_block_ok ?P" by (simp add: data_block_ok_def dict_get_def)
  from environment_header_selects_branch [OF v1] e1
  have "handle_webhook ascii_lib demo_client ?P ?H1 = handle_production_webhook ?P" by blast
  with production_ok(2) [OF d]
  have c1: "calls (snd (handle_webhook ascii_lib demo_client ?P ?H1))
              = [''_handle_production_webhook'', ''_process_failed_payment'']"
    by (simp add: selected_def dict_get_def)
  from environment_header_selects_branch [OF v2] e2
  have c2: "calls (snd (handle_webhook ascii_lib demo_client ?P ?H2))
              = [''_handle_sandbox_webhook'']" by blast
  from v1 e1 c1 v2 e2 c2 show ?thesis by blast
qed

end
